theory Spec2Isabelle
  imports Complex_Main
begin

section \<open>Data model of \<^verbatim>\<open>tftblinky.py\<close>\<close>

text \<open>
  Python exception classes that can reach the \<^verbatim>\<open>try\<close> block of the constructor or
  the methods. \<^verbatim>\<open>AttributeError\<close> is what an attribute access on a missing name or
  on \<^verbatim>\<open>None\<close> raises; \<^verbatim>\<open>ValueError\<close> is what \<^verbatim>\<open>time.sleep\<close> raises on a
  negative length and what \<^verbatim>\<open>DigitalInOut\<close> raises on a line that is in use;
  \<^verbatim>\<open>OverflowError\<close> is what \<^verbatim>\<open>time.sleep\<close> raises on a length too large for
  the runtime's timestamps.
\<close>

datatype exn = AttributeError | TypeError | ValueError | OverflowError | RuntimeError

datatype Direction = INPUT | OUTPUT

text \<open>A \<^verbatim>\<open>digitalio.DigitalInOut\<close> object: its direction and its logic level.\<close>

record DigitalInOut =
  direction :: Direction
  pin_value :: bool

text \<open>
  The display object. \<open>brightness\<close> is \<open>None\<close> when the object has no attribute
  \<^verbatim>\<open>brightness\<close> (\<^verbatim>\<open>hasattr\<close> is false), and \<open>Some v\<close> when it has one, where
  \<open>v\<close> is the attribute's value: \<open>Some x\<close> for the float \<open>x\<close>, \<open>None\<close> for Python's
  \<^verbatim>\<open>None\<close>. No arithmetic is done on brightness values (they are stored, compared with
  \<^verbatim>\<open>None\<close> and written back), so a float is modelled as a real.
\<close>

record Display =
  brightness :: "real option option"

text \<open>The diagnostics the program prints, one constructor per \<^verbatim>\<open>print\<close> call.\<close>

datatype message =
    UsingBrightness              \<comment> \<open>"Using display brightness control"\<close>
  | UsingPin string              \<comment> \<open>"Using {pin_name} pin for backlight control"\<close>
  | CouldNotFind                 \<comment> \<open>"Could not find backlight control method. ..."\<close>
  | NoDisplayDetected            \<comment> \<open>"No built-in display detected."\<close>
  | NoControlMethod              \<comment> \<open>"No backlight control method available"\<close>
  | RestoredBrightness real      \<comment> \<open>"Restored original brightness: {original_brightness}"\<close>
  | RestoredState bool           \<comment> \<open>"Restored original backlight state: {original_state}"\<close>

text \<open>
  What a run does to the outside, in order: lines printed, sleeps, writes to the display's
  brightness, writes to the pin's value, and entries into \<^verbatim>\<open>restore_original_state\<close>
  (recorded because the specification distinguishes whether \<^verbatim>\<open>blink\<close> invokes it).
\<close>

datatype event =
    Print message
  | Sleep real
  | SetBrightness real
  | SetPinValue bool
  | CallRestore

text \<open>
  The instance: the attributes of \<^verbatim>\<open>self\<close>, with the objects they refer to held in
  place (the display object is reached through \<^verbatim>\<open>self.display\<close> only, the pin object
  through \<^verbatim>\<open>self.backlight\<close> only), and the trace of effects so far.
  \<open>original_state = None\<close> means that the attribute was never assigned
  (\<^verbatim>\<open>hasattr(self, 'original_state')\<close> is false).
\<close>

record TFTBlinky =
  display :: "Display option"
  backlight :: "DigitalInOut option"
  control_method :: "string option"
  original_brightness :: "real option"
  original_state :: "bool option"
  trace :: "event list"

text \<open>An operation returns normally (\<open>Inr\<close>) or raises (\<open>Inl\<close>) with the instance as
  it is at the raise.\<close>

type_synonym 'a result = "(exn \<times> TFTBlinky) + 'a"

text \<open>
  The ambient \<^verbatim>\<open>board\<close> module. \<open>DISPLAY\<close> is the outcome of evaluating
  \<^verbatim>\<open>board.DISPLAY\<close>: an exception, or the value (\<open>None\<close> for Python's \<^verbatim>\<open>None\<close>).
  \<open>pins\<close> lists the pin names the module has (\<^verbatim>\<open>hasattr(board, name)\<close>); with
  each name goes the outcome of the three steps the constructor takes on it (source lines
  32, 33 and 35): \<open>Inr v\<close> when all three go through and the value read is \<open>v\<close>,
  \<open>Inl f\<close> when one of them raises, \<open>f\<close> saying which one and what.
\<close>

datatype pin_failure =
    CreateRaises exn
      \<comment> \<open>\<^verbatim>\<open>DigitalInOut(getattr(board, pin_name))\<close> raises\<close>
  | DirectionRaises exn bool
      \<comment> \<open>the object is made (an input, at the given level);
          \<^verbatim>\<open>self.backlight.direction = Direction.OUTPUT\<close> raises\<close>
  | ValueRaises exn bool
      \<comment> \<open>the object is made and set to output (at the given level);
          reading \<^verbatim>\<open>self.backlight.value\<close> raises\<close>


record board =
  DISPLAY :: "exn + Display option"
  pins :: "(string \<times> (pin_failure + bool)) list"

section \<open>Operations\<close>

definition log :: "event \<Rightarrow> TFTBlinky \<Rightarrow> TFTBlinky" where
  "log e s = s\<lparr>trace := trace s @ [e]\<rparr>"

text \<open>Truth value of \<^verbatim>\<open>self.control_method\<close>: \<^verbatim>\<open>None\<close> and the empty string are false.\<close>

definition truthy :: "string option \<Rightarrow> bool" where
  "truthy m = (case m of None \<Rightarrow> False | Some n \<Rightarrow> n \<noteq> [])"

text \<open>
  \<^verbatim>\<open>time.sleep(t)\<close>. Which lengths \<^verbatim>\<open>time.sleep\<close> refuses, and with which
  exception, is the runtime's affair and not in the source, so it is a parameter:
  \<open>time_sleep t\<close> is the exception raised on the length \<open>t\<close>, or \<open>None\<close> when the
  call sleeps and returns.
\<close>

definition sleep :: "(real \<Rightarrow> exn option) \<Rightarrow> real \<Rightarrow> TFTBlinky \<Rightarrow> TFTBlinky result" where
  "sleep time_sleep t s =
     (case time_sleep t of
        Some e \<Rightarrow> Inl (e, s)
      | None \<Rightarrow> Inr (log (Sleep t) s))"

text \<open>
  One such runtime, CPython 3.11, as far as the interpreter itself decides: the length is
  first converted to a signed 64-bit count of nanoseconds (\<^verbatim>\<open>OverflowError\<close> outside
  that range), then refused when negative (\<^verbatim>\<open>ValueError\<close>); every other length is
  taken to be slept through.
\<close>

definition time_sleep_py311 :: "real \<Rightarrow> exn option" where
  "time_sleep_py311 t =
     (if t * 10 ^ 9 < - (2 ^ 63) \<or> 2 ^ 63 \<le> t * 10 ^ 9 then Some OverflowError
      else if t < 0 then Some ValueError
      else None)"

text \<open>\<^verbatim>\<open>self.display.brightness = v\<close>\<close>

definition write_brightness :: "real \<Rightarrow> TFTBlinky \<Rightarrow> TFTBlinky result" where
  "write_brightness v s =
     (case display s of
        None \<Rightarrow> Inl (AttributeError, s)
      | Some d \<Rightarrow> Inr (log (SetBrightness v) (s\<lparr>display := Some (d\<lparr>brightness := Some (Some v)\<rparr>)\<rparr>)))"

text \<open>\<^verbatim>\<open>self.backlight.value = v\<close>\<close>

definition write_pin :: "bool \<Rightarrow> TFTBlinky \<Rightarrow> TFTBlinky result" where
  "write_pin v s =
     (case backlight s of
        None \<Rightarrow> Inl (AttributeError, s)
      | Some p \<Rightarrow> Inr (log (SetPinValue v) (s\<lparr>backlight := Some (p\<lparr>pin_value := v\<rparr>)\<rparr>)))"

definition set_backlight :: "TFTBlinky \<Rightarrow> bool \<Rightarrow> (TFTBlinky \<times> bool) result" where
  "set_backlight s state =
     (if control_method s = Some ''brightness'' then
        (case write_brightness (if state then 1.0 else 0.0) s of
           Inl x \<Rightarrow> Inl x
         | Inr s' \<Rightarrow> Inr (s', state))
      else if control_method s = Some ''pin'' then
        (case write_pin state s of
           Inl x \<Rightarrow> Inl x
         | Inr s' \<Rightarrow> Inr (s', state))
      else Inr (s, state))"

definition restore_original_state :: "TFTBlinky \<Rightarrow> TFTBlinky result" where
  "restore_original_state s0 =
     (let s = log CallRestore s0 in
      if control_method s = Some ''brightness'' \<and> original_brightness s \<noteq> None then
        (case write_brightness (the (original_brightness s)) s of
           Inl x \<Rightarrow> Inl x
         | Inr s' \<Rightarrow> Inr (log (Print (RestoredBrightness (the (original_brightness s')))) s'))
      else if control_method s = Some ''pin'' \<and> original_state s \<noteq> None then
        (case write_pin (the (original_state s)) s of
           Inl x \<Rightarrow> Inl x
         | Inr s' \<Rightarrow> Inr (log (Print (RestoredState (the (original_state s')))) s'))
      else Inr s)"

text \<open>One pass of the body of the \<^verbatim>\<open>for\<close> loop of \<^verbatim>\<open>blink\<close>.\<close>

definition blink_once ::
  "(real \<Rightarrow> exn option) \<Rightarrow> real \<Rightarrow> real \<Rightarrow> TFTBlinky \<Rightarrow> TFTBlinky result" where
  "blink_once time_sleep on_time off_time s =
     (case set_backlight s True of
        Inl x \<Rightarrow> Inl x
      | Inr (s1, _) \<Rightarrow>
          (case sleep time_sleep on_time s1 of
             Inl x \<Rightarrow> Inl x
           | Inr s2 \<Rightarrow>
               (case set_backlight s2 False of
                  Inl x \<Rightarrow> Inl x
                | Inr (s3, _) \<Rightarrow> sleep time_sleep off_time s3)))"

text \<open>\<^verbatim>\<open>for i in range(count)\<close>, given the number of passes left.\<close>

fun blink_loop ::
  "(real \<Rightarrow> exn option) \<Rightarrow> nat \<Rightarrow> real \<Rightarrow> real \<Rightarrow> TFTBlinky \<Rightarrow> TFTBlinky result" where
  "blink_loop time_sleep 0 on_time off_time s = Inr s"
| "blink_loop time_sleep (Suc n) on_time off_time s =
     (case blink_once time_sleep on_time off_time s of
        Inl x \<Rightarrow> Inl x
      | Inr s' \<Rightarrow> blink_loop time_sleep n on_time off_time s')"

text \<open>\<^verbatim>\<open>range(count)\<close> has \<open>count\<close> elements, and none when \<open>count\<close> is negative.\<close>

definition blink ::
  "(real \<Rightarrow> exn option) \<Rightarrow> TFTBlinky \<Rightarrow> int \<Rightarrow> real \<Rightarrow> real \<Rightarrow> TFTBlinky result" where
  "blink time_sleep s count on_time off_time =
     (if \<not> truthy (control_method s) then Inr (log (Print NoControlMethod) s)
      else
        (case blink_loop time_sleep (nat count) on_time off_time s of
           Inl x \<Rightarrow> Inl x
         | Inr s' \<Rightarrow> restore_original_state s'))"

subsection \<open>Construction\<close>

definition backlight_pins :: "string list" where
  "backlight_pins = [''DISPLAY_BACKLIGHT'', ''TFT_BACKLIGHT'', ''BACKLIGHT'']"

text \<open>\<^verbatim>\<open>hasattr(self.display, 'brightness')\<close>: false on \<^verbatim>\<open>None\<close>.\<close>

definition hasattr_brightness :: "Display option \<Rightarrow> bool" where
  "hasattr_brightness d = (case d of None \<Rightarrow> False | Some dd \<Rightarrow> brightness dd \<noteq> None)"

text \<open>
  Source lines 32 to 36, on a name the board has. The assignments are made in the
  source's order, so a raise leaves behind what was assigned before it:
  nothing when making the object raises (line 32); \<^verbatim>\<open>self.backlight\<close> when setting
  the direction raises (line 33); \<^verbatim>\<open>self.backlight\<close>, its direction and
  \<^verbatim>\<open>self.control_method = "pin"\<close> (line 34) when reading the value raises (line 35).
\<close>

fun select_pin :: "string \<Rightarrow> pin_failure + bool \<Rightarrow> TFTBlinky \<Rightarrow> TFTBlinky result" where
  "select_pin pin_name (Inl (CreateRaises e)) s = Inl (e, s)"
| "select_pin pin_name (Inl (DirectionRaises e lv)) s =
     Inl (e, s\<lparr>backlight := Some \<lparr>direction = INPUT, pin_value = lv\<rparr>\<rparr>)"
| "select_pin pin_name (Inl (ValueRaises e lv)) s =
     Inl (e, s\<lparr>backlight := Some \<lparr>direction = OUTPUT, pin_value = lv\<rparr>,
               control_method := Some ''pin''\<rparr>)"
| "select_pin pin_name (Inr v) s =
     Inr (log (Print (UsingPin pin_name))
            (s\<lparr>backlight := Some \<lparr>direction = OUTPUT, pin_value = v\<rparr>,
               control_method := Some ''pin'',
               original_state := Some v\<rparr>))"

text \<open>
  The loop over the candidate names: the first name the board has is taken, and the loop
  ends there, by \<^verbatim>\<open>break\<close> or by the exception.
\<close>

fun probe_pins :: "board \<Rightarrow> string list \<Rightarrow> TFTBlinky \<Rightarrow> TFTBlinky result" where
  "probe_pins b [] s = Inr s"
| "probe_pins b (pin_name # rest) s =
     (case map_of (pins b) pin_name of
        None \<Rightarrow> probe_pins b rest s
      | Some r \<Rightarrow> select_pin pin_name r s)"

definition init_fields :: TFTBlinky where
  "init_fields =
     \<lparr>display = None, backlight = None, control_method = None,
      original_brightness = None, original_state = None, trace = []\<rparr>"

text \<open>The body of the \<^verbatim>\<open>try\<close> block.\<close>

definition detect :: "board \<Rightarrow> TFTBlinky \<Rightarrow> TFTBlinky result" where
  "detect b s0 =
     (case DISPLAY b of
        Inl e \<Rightarrow> Inl (e, s0)
      | Inr d \<Rightarrow>
          (let s = s0\<lparr>display := d\<rparr> in
           if hasattr_brightness (display s) then
             Inr (log (Print UsingBrightness)
                    (s\<lparr>control_method := Some ''brightness'',
                       original_brightness := the (brightness (the (display s)))\<rparr>))
           else
             (case probe_pins b backlight_pins s of
                Inl x \<Rightarrow> Inl x
              | Inr s' \<Rightarrow>
                  if \<not> truthy (control_method s') then Inr (log (Print CouldNotFind) s')
                  else Inr s')))"

text \<open>\<^verbatim>\<open>except (AttributeError, TypeError)\<close>\<close>

definition caught :: "exn \<Rightarrow> bool" where
  "caught e = (e = AttributeError \<or> e = TypeError)"

text \<open>\<^verbatim>\<open>TFTBlinky()\<close>: an exception that leaves the constructor leaves no instance.\<close>

definition construct :: "board \<Rightarrow> exn + TFTBlinky" where
  "construct b =
     (case detect b init_fields of
        Inl (e, s) \<Rightarrow> if caught e then Inr (log (Print NoDisplayDetected) s) else Inl e
      | Inr s \<Rightarrow> Inr s)"

section \<open>Observations\<close>

text \<open>The values written to the pin, and the lengths slept, in the order of a trace.\<close>

fun pin_writes :: "event list \<Rightarrow> bool list" where
  "pin_writes [] = []"
| "pin_writes (SetPinValue v # es) = v # pin_writes es"
| "pin_writes (e # es) = pin_writes es"

fun sleeps :: "event list \<Rightarrow> real list" where
  "sleeps [] = []"
| "sleeps (Sleep t # es) = t # sleeps es"
| "sleeps (e # es) = sleeps es"

text \<open>An active control method whose handle is there, as construction leaves it.\<close>

definition has_handle :: "TFTBlinky \<Rightarrow> bool" where
  "has_handle s =
     (control_method s = Some ''brightness'' \<and> display s \<noteq> None \<or>
      control_method s = Some ''pin'' \<and> backlight s \<noteq> None)"

text \<open>The instance after a call, whether the call returned or raised.\<close>

definition after :: "TFTBlinky result \<Rightarrow> TFTBlinky" where
  "after r = (case r of Inl (e, s) \<Rightarrow> s | Inr s \<Rightarrow> s)"

section \<open>Helper lemmas\<close>

lemma set_backlight_brightness:
  "control_method s = Some ''brightness'' \<Longrightarrow> display s = Some d \<Longrightarrow>
   set_backlight s st =
     Inr (s\<lparr>display := Some (d\<lparr>brightness := Some (Some (if st then 1 else 0))\<rparr>),
            trace := trace s @ [SetBrightness (if st then 1 else 0)]\<rparr>, st)"
  by (simp add: set_backlight_def write_brightness_def log_def)

lemma set_backlight_pin:
  "control_method s = Some ''pin'' \<Longrightarrow> backlight s = Some p \<Longrightarrow>
   set_backlight s st =
     Inr (s\<lparr>backlight := Some (p\<lparr>pin_value := st\<rparr>),
            trace := trace s @ [SetPinValue st]\<rparr>, st)"
  by (simp add: set_backlight_def write_pin_def log_def)


lemma blink_once_pin:
  assumes "control_method s = Some ''pin''" and "backlight s = Some p"
    and "time_sleep on_time = None" and "time_sleep off_time = None"
  shows "blink_once time_sleep on_time off_time s =
     Inr (s\<lparr>backlight := Some (p\<lparr>pin_value := False\<rparr>),
            trace := trace s @ [SetPinValue True, Sleep on_time, SetPinValue False, Sleep off_time]\<rparr>)"
  using assms
  by (simp add: blink_once_def set_backlight_pin sleep_def log_def)


lemma restore_brightness:
  "control_method s = Some ''brightness'' \<Longrightarrow> original_brightness s = Some b0 \<Longrightarrow>
   display s = Some d \<Longrightarrow>
   restore_original_state s =
     Inr (s\<lparr>display := Some (d\<lparr>brightness := Some (Some b0)\<rparr>),
            trace := trace s @ [CallRestore, SetBrightness b0, Print (RestoredBrightness b0)]\<rparr>)"
  by (simp add: restore_original_state_def write_brightness_def log_def)

lemma restore_pin:
  "control_method s = Some ''pin'' \<Longrightarrow> original_state s = Some v \<Longrightarrow>
   backlight s = Some p \<Longrightarrow>
   restore_original_state s =
     Inr (s\<lparr>backlight := Some (p\<lparr>pin_value := v\<rparr>),
            trace := trace s @ [CallRestore, SetPinValue v, Print (RestoredState v)]\<rparr>)"
  by (simp add: restore_original_state_def write_pin_def log_def)

text \<open>With the handle there, restoration returns, and the first thing it adds to the
  trace is its own entry; it never sleeps.\<close>

lemma restore_enters:
  assumes "has_handle s"
  shows "\<exists>s' evs. restore_original_state s = Inr s' \<and>
           trace s' = trace s @ CallRestore # evs \<and> sleeps evs = []"
  using assms
  by (cases "original_brightness s"; cases "original_state s")
     (auto simp: has_handle_def restore_original_state_def write_brightness_def
        write_pin_def log_def Let_def)

lemma blink_nonpositive:
  assumes "truthy (control_method s)" and "count \<le> 0"
  shows "blink time_sleep s count on_time off_time = restore_original_state s"
  using assms by (simp add: blink_def)

lemma has_handle_truthy: "has_handle s \<Longrightarrow> truthy (control_method s)"
  by (auto simp: has_handle_def truthy_def)

text \<open>The loop over the names goes for the first name the board has, and for no other.\<close>

lemma probe_pins_first:
  assumes "List.find (\<lambda>n. map_of (pins b) n \<noteq> None) names = Some pin_name"
    and "map_of (pins b) pin_name = Some r"
  shows "probe_pins b names s = select_pin pin_name r s"
  using assms
proof (induction names)
  case Nil
  then show ?case by simp
next
  case (Cons n ns)
  show ?case
  proof (cases "map_of (pins b) n")
    case None
    then show ?thesis using Cons by simp
  next
    case (Some r')
    then have "n = pin_name" using Cons.prems(1) by simp
    then show ?thesis using Some Cons.prems(2) by simp
  qed
qed

lemma probe_pins_absent:
  assumes "List.find (\<lambda>n. map_of (pins b) n \<noteq> None) names = None"
  shows "probe_pins b names s = Inr s"
  using assms
  by (induction names) (auto split: if_splits)

lemma find_present:
  assumes "List.find (\<lambda>n. map_of (pins b) n \<noteq> None) names = Some n"
  shows "\<exists>r. map_of (pins b) n = Some r"
  using assms by (auto dest: find_Some_iff [THEN iffD1])

text \<open>The outcome of the \<^verbatim>\<open>try\<close> block, by cases on the board.\<close>

lemma detect_outcome:
  "detect b init_fields =
     (case DISPLAY b of
        Inl e \<Rightarrow> Inl (e, init_fields)
      | Inr d \<Rightarrow>
          if hasattr_brightness d then
            Inr (init_fields\<lparr>display := d, control_method := Some ''brightness'',
                   original_brightness := the (brightness (the d)),
                   trace := [Print UsingBrightness]\<rparr>)
          else
            (case List.find (\<lambda>n. map_of (pins b) n \<noteq> None) backlight_pins of
               None \<Rightarrow> Inr (init_fields\<lparr>display := d, trace := [Print CouldNotFind]\<rparr>)
             | Some n \<Rightarrow>
                 select_pin n (the (map_of (pins b) n)) (init_fields\<lparr>display := d\<rparr>)))"
proof (cases "DISPLAY b")
  case (Inl e)
  then show ?thesis by (simp add: detect_def)
next
  case (Inr d)
  show ?thesis
  proof (cases "hasattr_brightness d")
    case True
    then show ?thesis using Inr by (simp add: detect_def Let_def log_def init_fields_def)
  next
    case False
    show ?thesis
    proof (cases "List.find (\<lambda>n. map_of (pins b) n \<noteq> None) backlight_pins")
      case None
      then show ?thesis using Inr False
        by (simp add: detect_def Let_def probe_pins_absent truthy_def log_def init_fields_def)
    next
      case (Some n)
      then obtain r where r: "map_of (pins b) n = Some r" using find_present by blast
      have p: "probe_pins b backlight_pins (init_fields\<lparr>display := d\<rparr>) =
                 select_pin n r (init_fields\<lparr>display := d\<rparr>)"
        using Some r by (rule probe_pins_first)
      show ?thesis
      proof (cases r)
        case (Inl f)
        then show ?thesis using Inr False Some r p
          by (cases f) (simp_all add: detect_def Let_def)
      next
        case (Inr v)
        then show ?thesis using \<open>DISPLAY b = Inr d\<close> False Some r p
          by (simp add: detect_def Let_def truthy_def log_def)
      qed
    qed
  qed
qed

text \<open>On a board whose display has a brightness attribute, construction selects it and
  captures its current value.\<close>

lemma construct_brightness:
  assumes "DISPLAY b = Inr (Some d)" and "brightness d = Some v"
  shows "construct b =
     Inr \<lparr>display = Some d, backlight = None, control_method = Some ''brightness'',
          original_brightness = v, original_state = None,
          trace = [Print UsingBrightness]\<rparr>"
  using assms unfolding construct_def detect_outcome
  by (simp add: hasattr_brightness_def init_fields_def)

text \<open>What construction does once the first candidate name present is known.\<close>

lemma construct_on_pin:
  assumes "DISPLAY b = Inr d" and "\<not> hasattr_brightness d"
    and "List.find (\<lambda>n. map_of (pins b) n \<noteq> None) backlight_pins = Some n"
    and "map_of (pins b) n = Some r"
  shows "construct b =
     (case select_pin n r (init_fields\<lparr>display := d\<rparr>) of
        Inl (e, s) \<Rightarrow> if caught e then Inr (log (Print NoDisplayDetected) s) else Inl e
      | Inr s \<Rightarrow> Inr s)"
  using assms unfolding construct_def detect_outcome by simp

text \<open>Construction leaves an active control method only together with its handle, so the
  instances the theorems below speak of are the ones construction produces.\<close>

lemma construct_has_handle:
  assumes "construct b = Inr s" and "control_method s \<noteq> None"
  shows "has_handle s"
proof (cases "DISPLAY b")
  case (Inl e)
  then show ?thesis using assms unfolding construct_def detect_outcome
    by (auto simp: log_def init_fields_def split: if_splits)
next
  case (Inr d)
  show ?thesis
  proof (cases "hasattr_brightness d")
    case True
    then show ?thesis using assms Inr unfolding construct_def detect_outcome
      by (auto simp: has_handle_def hasattr_brightness_def init_fields_def split: option.splits)
  next
    case False
    show ?thesis
    proof (cases "List.find (\<lambda>n. map_of (pins b) n \<noteq> None) backlight_pins")
      case None
      then show ?thesis using assms Inr False unfolding construct_def detect_outcome
        by (auto simp: init_fields_def)
    next
      case (Some n)
      then obtain r where r: "map_of (pins b) n = Some r" using find_present by blast
      show ?thesis
      proof (cases r)
        case (Inl f)
        then show ?thesis using assms construct_on_pin [OF Inr False Some r]
          by (cases f) (auto simp: has_handle_def log_def init_fields_def split: if_splits)
      next
        case (Inr v)
        then show ?thesis using assms construct_on_pin [OF \<open>DISPLAY b = Inr d\<close> False Some r]
          by (auto simp: has_handle_def log_def init_fields_def)
      qed
    qed
  qed
qed

section \<open>The claims\<close>

subsection \<open>\<^verbatim>\<open>set_backlight\<close>\<close>

text \<open>
  C3. With an active control method, \<^verbatim>\<open>set_backlight\<close> applies its argument through
  that method. Under \<^verbatim>\<open>"brightness"\<close> (the display handle being there),
  \<^verbatim>\<open>set_backlight(True)\<close> returns and leaves the display's brightness at 1.0, and
  \<^verbatim>\<open>set_backlight(False)\<close> leaves it at 0.0. Under \<^verbatim>\<open>"pin"\<close> (the pin handle being
  there), \<^verbatim>\<open>set_backlight(state)\<close> returns \<open>state\<close> and leaves the pin's value at
  exactly \<open>state\<close>, for either boolean.
\<close>

theorem set_backlight_applies_state:
  "(control_method s = Some ''brightness'' \<and> display s = Some d \<longrightarrow>
      (\<exists>s' d'. set_backlight s True = Inr (s', True) \<and> display s' = Some d' \<and>
         brightness d' = Some (Some 1)) \<and>
      (\<exists>s' d'. set_backlight s False = Inr (s', False) \<and> display s' = Some d' \<and>
         brightness d' = Some (Some 0))) \<and>
   (control_method s = Some ''pin'' \<and> backlight s = Some p \<longrightarrow>
      (\<exists>s' p'. set_backlight s state = Inr (s', state) \<and> backlight s' = Some p' \<and>
         pin_value p' = state))"
  by (simp add: set_backlight_brightness set_backlight_pin)

theorem set_backlight_applies_state_witness:
  "(\<exists>s' d'. set_backlight
       \<lparr>display = Some \<lparr>brightness = Some (Some (7 / 10))\<rparr>, backlight = None,
        control_method = Some ''brightness'', original_brightness = Some (7 / 10),
        original_state = None, trace = []\<rparr> True = Inr (s', True) \<and>
      display s' = Some d' \<and> brightness d' = Some (Some 1)) \<and>
   (\<exists>s' d'. set_backlight
       \<lparr>display = Some \<lparr>brightness = Some (Some (7 / 10))\<rparr>, backlight = None,
        control_method = Some ''brightness'', original_brightness = Some (7 / 10),
        original_state = None, trace = []\<rparr> False = Inr (s', False) \<and>
      display s' = Some d' \<and> brightness d' = Some (Some 0)) \<and>
   (\<exists>s' p'. set_backlight
       \<lparr>display = None, backlight = Some \<lparr>direction = OUTPUT, pin_value = False\<rparr>,
        control_method = Some ''pin'', original_brightness = None,
        original_state = Some False, trace = []\<rparr> True = Inr (s', True) \<and>
      backlight s' = Some p' \<and> pin_value p' = True)"
  using
    set_backlight_applies_state
      [of "\<lparr>display = Some \<lparr>brightness = Some (Some (7 / 10))\<rparr>, backlight = None,
            control_method = Some ''brightness'', original_brightness = Some (7 / 10),
            original_state = None, trace = []\<rparr>"
          "\<lparr>brightness = Some (Some (7 / 10))\<rparr>"]
    set_backlight_applies_state
      [of "\<lparr>display = None, backlight = Some \<lparr>direction = OUTPUT, pin_value = False\<rparr>,
            control_method = Some ''pin'', original_brightness = None,
            original_state = Some False, trace = []\<rparr>"
          _ "\<lparr>direction = OUTPUT, pin_value = False\<rparr>" True]
  by simp

text \<open>
  C4. With no control method, \<^verbatim>\<open>set_backlight(state)\<close> returns \<open>state\<close> without
  raising, and the instance it leaves is the instance it was given: no attribute, no
  object behind a handle and no entry of the trace has changed.
\<close>

theorem set_backlight_inert:
  assumes "control_method s = None"
  shows "set_backlight s state = Inr (s, state)"
  using assms by (simp add: set_backlight_def)

theorem set_backlight_inert_witness:
  "control_method init_fields = None \<and>
   set_backlight init_fields True = Inr (init_fields, True)"
  using set_backlight_inert [of init_fields True]
  by (simp add: init_fields_def)

subsection \<open>\<^verbatim>\<open>restore_original_state\<close>\<close>

text \<open>
  C6. \<^verbatim>\<open>restore_original_state\<close> is idempotent on what can be observed of the
  backlight. For every instance, after a second call in a row the display object (with
  its brightness) and the pin object (with its value) are what they were after the first
  call, and the second call raises exactly when the first did.
\<close>

theorem restore_idempotent:
  "display (after (restore_original_state (after (restore_original_state s)))) =
     display (after (restore_original_state s)) \<and>
   backlight (after (restore_original_state (after (restore_original_state s)))) =
     backlight (after (restore_original_state s)) \<and>
   isl (restore_original_state (after (restore_original_state s))) =
     isl (restore_original_state s)"
  by (cases "display s"; cases "backlight s"; cases "original_brightness s";
      cases "original_state s")
     (simp_all add: restore_original_state_def write_brightness_def write_pin_def
        log_def after_def Let_def)

subsection \<open>\<^verbatim>\<open>blink\<close>\<close>




text \<open>
  C2. With no control method, \<^verbatim>\<open>blink\<close> returns at once for every count and all
  durations: the instance it leaves differs from the one it was given by exactly one
  added trace entry, the diagnostic "No backlight control method available". So there is
  no write to the display or to the pin, no sleep, and no entry into
  \<^verbatim>\<open>restore_original_state\<close>.
\<close>

theorem blink_without_control_method:
  assumes "control_method s = None"
  shows "blink time_sleep s count on_time off_time =
           Inr (s\<lparr>trace := trace s @ [Print NoControlMethod]\<rparr>)"
  using assms by (simp add: blink_def truthy_def log_def)

theorem blink_without_control_method_witness:
  "control_method init_fields = None \<and>
   blink time_sleep_py311 init_fields 5 (1 / 2) (1 / 2) =
     Inr \<lparr>display = None, backlight = None, control_method = None,
          original_brightness = None, original_state = None,
          trace = [Print NoControlMethod]\<rparr>"
  using blink_without_control_method [of init_fields time_sleep_py311 5 "1 / 2" "1 / 2"]
  by (simp add: init_fields_def)

text \<open>
  C5. With an active control method and its handle there, \<^verbatim>\<open>blink(count=0, ...)\<close> is
  one call of \<^verbatim>\<open>restore_original_state\<close> on the untouched instance: it returns, the
  first entry it adds to the trace is the entry into \<^verbatim>\<open>restore_original_state\<close> (no
  on/off write comes before it), and it does not sleep.
\<close>

theorem blink_zero_restores:
  assumes "has_handle s"
  shows "blink time_sleep s 0 on_time off_time = restore_original_state s \<and>
         (\<exists>s' evs. blink time_sleep s 0 on_time off_time = Inr s' \<and>
            trace s' = trace s @ CallRestore # evs \<and> sleeps evs = [])"
  using blink_nonpositive [OF has_handle_truthy [OF assms], of 0 time_sleep on_time off_time]
    restore_enters [OF assms]
  by simp

theorem blink_zero_restores_witness:
  "blink time_sleep_py311
     \<lparr>display = None, backlight = Some \<lparr>direction = OUTPUT, pin_value = True\<rparr>,
      control_method = Some ''pin'', original_brightness = None,
      original_state = Some True, trace = []\<rparr> 0 1 1 =
   Inr \<lparr>display = None, backlight = Some \<lparr>direction = OUTPUT, pin_value = True\<rparr>,
        control_method = Some ''pin'', original_brightness = None,
        original_state = Some True,
        trace = [CallRestore, SetPinValue True, Print (RestoredState True)]\<rparr>"
proof -
  let ?s = "\<lparr>display = None, backlight = Some \<lparr>direction = OUTPUT, pin_value = True\<rparr>,
            control_method = Some ''pin'', original_brightness = None,
            original_state = Some True, trace = []\<rparr>"
  have h: "has_handle ?s" by (simp add: has_handle_def)
  have r: "restore_original_state ?s =
     Inr \<lparr>display = None, backlight = Some \<lparr>direction = OUTPUT, pin_value = True\<rparr>,
          control_method = Some ''pin'', original_brightness = None,
          original_state = Some True,
          trace = [CallRestore, SetPinValue True, Print (RestoredState True)]\<rparr>"
    using restore_pin [of ?s True "\<lparr>direction = OUTPUT, pin_value = True\<rparr>"] by simp
  show ?thesis
    using blink_zero_restores [OF h, of time_sleep_py311 1 1, THEN conjunct1] r
    by (simp only:)
qed

text \<open>
  C10. With an active control method and its handle there, \<^verbatim>\<open>blink\<close> with a negative
  count does what \<^verbatim>\<open>blink\<close> with count 0 does: it is one call of
  \<^verbatim>\<open>restore_original_state\<close> on the untouched instance, it returns without raising,
  the first entry it adds to the trace is the entry into \<^verbatim>\<open>restore_original_state\<close>,
  and it does not sleep.
\<close>

theorem blink_negative_count:
  assumes "has_handle s" and "count < 0"
  shows "blink time_sleep s count on_time off_time = blink time_sleep s 0 on_time off_time \<and>
         blink time_sleep s count on_time off_time = restore_original_state s \<and>
         (\<exists>s' evs. blink time_sleep s count on_time off_time = Inr s' \<and>
            trace s' = trace s @ CallRestore # evs \<and> sleeps evs = [])"
proof -
  have t: "truthy (control_method s)" using assms(1) by (rule has_handle_truthy)
  have a: "blink time_sleep s count on_time off_time = restore_original_state s"
    using t assms(2) by (simp add: blink_nonpositive)
  have b: "blink time_sleep s 0 on_time off_time = restore_original_state s"
    using t by (simp add: blink_nonpositive)
  show ?thesis using a b restore_enters [OF assms(1)] by simp
qed

theorem blink_negative_count_witness:
  "blink time_sleep_py311
     \<lparr>display = Some \<lparr>brightness = Some (Some (7 / 10))\<rparr>, backlight = None,
      control_method = Some ''brightness'', original_brightness = Some (7 / 10),
      original_state = None, trace = []\<rparr> (- 3) 1 1 =
   Inr \<lparr>display = Some \<lparr>brightness = Some (Some (7 / 10))\<rparr>, backlight = None,
        control_method = Some ''brightness'', original_brightness = Some (7 / 10),
        original_state = None,
        trace = [CallRestore, SetBrightness (7 / 10), Print (RestoredBrightness (7 / 10))]\<rparr>"
proof -
  let ?s = "\<lparr>display = Some \<lparr>brightness = Some (Some (7 / 10))\<rparr>, backlight = None,
            control_method = Some ''brightness'', original_brightness = Some (7 / 10),
            original_state = None, trace = []\<rparr>"
  have h: "has_handle ?s" by (simp add: has_handle_def)
  have n: "(- 3 :: int) < 0" by simp
  have r: "restore_original_state ?s =
     Inr \<lparr>display = Some \<lparr>brightness = Some (Some (7 / 10))\<rparr>, backlight = None,
          control_method = Some ''brightness'', original_brightness = Some (7 / 10),
          original_state = None,
          trace = [CallRestore, SetBrightness (7 / 10), Print (RestoredBrightness (7 / 10))]\<rparr>"
    using restore_brightness [of ?s "7 / 10" "\<lparr>brightness = Some (Some (7 / 10))\<rparr>"] by simp
  show ?thesis
    using blink_negative_count [OF h n, of time_sleep_py311 1 1, THEN conjunct2, THEN conjunct1] r
    by (simp only:)
qed

text \<open>
  C9, as the specification states it: for any durations, \<^verbatim>\<open>blink(count=2, t1, t2)\<close>
  on a pin instance with original state \<^verbatim>\<open>False\<close> writes
  \<open>[True, False, True, False, False]\<close>. On CPython 3.11, \<^verbatim>\<open>blink(2, 1e10, 0.1)\<close>
  writes \<^verbatim>\<open>True\<close>, then \<^verbatim>\<open>time.sleep(1e10)\<close> raises \<^verbatim>\<open>OverflowError\<close>: the only
  write is \<open>[True]\<close>, and \<^verbatim>\<open>restore_original_state\<close> is not entered.
\<close>

theorem blink_pin_overflow_counterexample:
  "blink time_sleep_py311
     \<lparr>display = None, backlight = Some \<lparr>direction = OUTPUT, pin_value = False\<rparr>,
      control_method = Some ''pin'', original_brightness = None,
      original_state = Some False, trace = []\<rparr> 2 (10 ^ 10) (1 / 10) =
   Inl (OverflowError,
     \<lparr>display = None, backlight = Some \<lparr>direction = OUTPUT, pin_value = True\<rparr>,
      control_method = Some ''pin'', original_brightness = None,
      original_state = Some False, trace = [SetPinValue True]\<rparr>)"
  by (simp add: blink_def truthy_def numeral_2_eq_2 blink_once_def set_backlight_def
        write_pin_def sleep_def time_sleep_py311_def log_def)

text \<open>
  C9, amended. For an instance whose control method is \<^verbatim>\<open>"pin"\<close>, whose captured
  original pin state is \<^verbatim>\<open>False\<close> and whose pin handle is there,
  \<^verbatim>\<open>blink(count=2, on_time, off_time)\<close> with durations that \<^verbatim>\<open>time.sleep\<close> accepts
  returns, and the values it writes to the pin are, in order,
  \<open>[True, False, True, False, False]\<close>; the last one is written inside
  \<^verbatim>\<open>restore_original_state\<close>.
\<close>

theorem blink_pin_twice:
  assumes "control_method s = Some ''pin''" and "original_state s = Some False"
    and "backlight s = Some p"
    and "time_sleep on_time = None" and "time_sleep off_time = None"
  shows "\<exists>s'. blink time_sleep s 2 on_time off_time = Inr s' \<and>
           trace s' = trace s @
             [SetPinValue True, Sleep on_time, SetPinValue False, Sleep off_time,
              SetPinValue True, Sleep on_time, SetPinValue False, Sleep off_time,
              CallRestore, SetPinValue False, Print (RestoredState False)] \<and>
           pin_writes (drop (length (trace s)) (trace s')) = [True, False, True, False, False]"
  using assms
  by (simp add: blink_def truthy_def numeral_2_eq_2 blink_once_def set_backlight_def
        write_pin_def sleep_def log_def restore_original_state_def Let_def)

theorem blink_pin_twice_witness:
  "time_sleep_py311 (1 / 10) = None \<and>
   (\<exists>s'. blink time_sleep_py311
       \<lparr>display = None, backlight = Some \<lparr>direction = OUTPUT, pin_value = False\<rparr>,
        control_method = Some ''pin'', original_brightness = None,
        original_state = Some False, trace = [Print (UsingPin ''BACKLIGHT'')]\<rparr>
       2 (1 / 10) (1 / 10) = Inr s' \<and>
      trace s' =
        [Print (UsingPin ''BACKLIGHT''),
         SetPinValue True, Sleep (1 / 10), SetPinValue False, Sleep (1 / 10),
         SetPinValue True, Sleep (1 / 10), SetPinValue False, Sleep (1 / 10),
         CallRestore, SetPinValue False, Print (RestoredState False)] \<and>
      pin_writes (drop 1 (trace s')) = [True, False, True, False, False])"
proof -
  have a: "time_sleep_py311 (1 / 10) = None" by (simp add: time_sleep_py311_def)
  show ?thesis
    using a blink_pin_twice
      [of "\<lparr>display = None, backlight = Some \<lparr>direction = OUTPUT, pin_value = False\<rparr>,
            control_method = Some ''pin'', original_brightness = None,
            original_state = Some False, trace = [Print (UsingPin ''BACKLIGHT'')]\<rparr>"
          "\<lparr>direction = OUTPUT, pin_value = False\<rparr>" time_sleep_py311 "1 / 10" "1 / 10"]
    by simp
qed

subsection \<open>Construction\<close>

text \<open>
  C7. When \<^verbatim>\<open>board.DISPLAY\<close> is obtained and has no \<^verbatim>\<open>brightness\<close> attribute, the
  names \<^verbatim>\<open>DISPLAY_BACKLIGHT\<close>, \<^verbatim>\<open>TFT_BACKLIGHT\<close>, \<^verbatim>\<open>BACKLIGHT\<close> are tried in that
  order and the first one the board has is selected: if a line is made from it,
  construction returns with control method \<^verbatim>\<open>"pin"\<close>, that line (set to output) as the
  handle, its level as the original state, and the diagnostic naming that pin. In
  particular, on a board that has neither \<^verbatim>\<open>DISPLAY_BACKLIGHT\<close> nor
  \<^verbatim>\<open>TFT_BACKLIGHT\<close>, the selected name is \<^verbatim>\<open>BACKLIGHT\<close>.
\<close>

theorem construct_probes_in_order:
  assumes "DISPLAY b = Inr d" and "\<not> hasattr_brightness d"
    and "List.find (\<lambda>n. map_of (pins b) n \<noteq> None) backlight_pins = Some pin_name"
    and "map_of (pins b) pin_name = Some (Inr v)"
  shows "construct b =
     Inr \<lparr>display = d, backlight = Some \<lparr>direction = OUTPUT, pin_value = v\<rparr>,
          control_method = Some ''pin'', original_brightness = None,
          original_state = Some v, trace = [Print (UsingPin pin_name)]\<rparr> \<and>
     (map_of (pins b) ''DISPLAY_BACKLIGHT'' = None \<and> map_of (pins b) ''TFT_BACKLIGHT'' = None
        \<longrightarrow> pin_name = ''BACKLIGHT'')"
proof -
  have c: "construct b =
     Inr \<lparr>display = d, backlight = Some \<lparr>direction = OUTPUT, pin_value = v\<rparr>,
          control_method = Some ''pin'', original_brightness = None,
          original_state = Some v, trace = [Print (UsingPin pin_name)]\<rparr>"
    using construct_on_pin [OF assms]
    by (simp add: log_def init_fields_def)
  have "map_of (pins b) ''DISPLAY_BACKLIGHT'' = None \<and> map_of (pins b) ''TFT_BACKLIGHT'' = None
        \<longrightarrow> pin_name = ''BACKLIGHT''"
    using assms(3) by (auto simp: backlight_pins_def split: if_splits)
  with c show ?thesis by simp
qed

theorem construct_probes_in_order_witness:
  "construct \<lparr>DISPLAY = Inr (Some \<lparr>brightness = None\<rparr>),
              pins = [(''BACKLIGHT'', Inr True)]\<rparr> =
     Inr \<lparr>display = Some \<lparr>brightness = None\<rparr>,
          backlight = Some \<lparr>direction = OUTPUT, pin_value = True\<rparr>,
          control_method = Some ''pin'', original_brightness = None,
          original_state = Some True, trace = [Print (UsingPin ''BACKLIGHT'')]\<rparr>"
  using construct_probes_in_order
      [of "\<lparr>DISPLAY = Inr (Some \<lparr>brightness = None\<rparr>), pins = [(''BACKLIGHT'', Inr True)]\<rparr>"
          "Some \<lparr>brightness = None\<rparr>" "''BACKLIGHT''" True]
  by (simp add: hasattr_brightness_def backlight_pins_def)




end
